theory Spec2Isabelle
  imports Complex_Main "HOL-Library.Word"
begin

section \<open>JavaScript values\<close>

text \<open>
  The server of \<^verbatim>\<open>src/server/index.js\<close> handles JSON bodies, thrown values and
  error details, all of them plain JavaScript values. A number is a rational: the
  settings read with \<^verbatim>\<open>Number(...)\<close> are kept as they are, fractions included (NaN and
  the infinities are outside the model). A string is a list of characters, one per
  UTF-16 code unit below 256. An object is the list of its own properties.
\<close>

datatype jsval =
    JUndefined
  | JNull
  | JBool bool
  | JNum rat
  | JStr string
  | JArr "jsval list"
  | JObj "(string \<times> jsval) list"

text \<open>Truthiness, as used by \<^verbatim>\<open>!x\<close> and \<^verbatim>\<open>x || y\<close>.\<close>

fun truthy :: "jsval \<Rightarrow> bool" where
  "truthy JUndefined = False"
| "truthy JNull = False"
| "truthy (JBool b) = b"
| "truthy (JNum n) = (n \<noteq> 0)"
| "truthy (JStr s) = (s \<noteq> [])"
| "truthy (JArr xs) = True"
| "truthy (JObj kvs) = True"

definition js_or :: "jsval \<Rightarrow> jsval \<Rightarrow> jsval" where
  "js_or a b = (if truthy a then a else b)"

fun js_typeof :: "jsval \<Rightarrow> string" where
  "js_typeof JUndefined = ''undefined''"
| "js_typeof JNull = ''object''"
| "js_typeof (JBool b) = ''boolean''"
| "js_typeof (JNum n) = ''number''"
| "js_typeof (JStr s) = ''string''"
| "js_typeof (JArr xs) = ''object''"
| "js_typeof (JObj kvs) = ''object''"

fun isArray :: "jsval \<Rightarrow> bool" where
  "isArray (JArr xs) = True"
| "isArray v = False"

fun nullish :: "jsval \<Rightarrow> bool" where
  "nullish JUndefined = True"
| "nullish JNull = True"
| "nullish v = False"

text \<open>
  \<^verbatim>\<open>v[k]\<close> on a value that is neither null nor undefined. The names this program
  reads (\<^verbatim>\<open>password\<close>, \<^verbatim>\<open>content\<close>, \<^verbatim>\<open>text\<close>, \<^verbatim>\<open>error\<close>, \<^verbatim>\<open>message\<close>,
  \<^verbatim>\<open>choices\<close>, \<^verbatim>\<open>flashcards\<close>) are not inherited by any JSON value, so only an
  object's own properties answer.
\<close>

fun getProp :: "jsval \<Rightarrow> string \<Rightarrow> jsval" where
  "getProp (JObj kvs) k = (case map_of kvs k of None \<Rightarrow> JUndefined | Some v \<Rightarrow> v)"
| "getProp v k = JUndefined"

text \<open>Optional chaining \<^verbatim>\<open>v?.k\<close> and \<^verbatim>\<open>v?.[0]\<close>.\<close>

definition opt_prop :: "jsval \<Rightarrow> string \<Rightarrow> jsval" where
  "opt_prop v k = (if nullish v then JUndefined else getProp v k)"

fun index0 :: "jsval \<Rightarrow> jsval" where
  "index0 (JArr (x # xs)) = x"
| "index0 (JStr (c # cs)) = JStr [c]"
| "index0 (JObj kvs) = getProp (JObj kvs) ''0''"
| "index0 v = JUndefined"

definition opt_index0 :: "jsval \<Rightarrow> jsval" where
  "opt_index0 v = (if nullish v then JUndefined else index0 v)"

text \<open>
  \<^verbatim>\<open>String.prototype.trim\<close>: white space and line terminators are removed at both
  ends. Among the code units below 256 these are TAB, LF, VT, FF, CR, SP and NBSP.
\<close>

definition js_whitespace :: "char \<Rightarrow> bool" where
  "js_whitespace c = (c \<in> set [CHR 0x09, CHR 0x0A, CHR 0x0B, CHR 0x0C, CHR 0x0D, CHR 0x20, CHR 0xA0])"

definition js_trim :: "string \<Rightarrow> string" where
  "js_trim s = rev (dropWhile js_whitespace (rev (dropWhile js_whitespace s)))"

text \<open>\<^verbatim>\<open>String(n)\<close> for an integer: its decimal digits.\<close>

fun digits :: "nat \<Rightarrow> string" where
  "digits n = (if n < 10 then [''0123456789'' ! n]
               else digits (n div 10) @ [''0123456789'' ! (n mod 10)])"

definition js_String :: "int \<Rightarrow> string" where
  "js_String n = (if n < 0 then CHR ''-'' # digits (nat (- n)) else digits (nat n))"

section \<open>Configuration\<close>

text \<open>
  The constants read from the environment when the server starts (lines 12 to 22).
  The two passwords are stored trimmed. A numeric setting is \<^verbatim>\<open>Number(env || default)\<close>,
  neither rounded nor checked for its sign: any rational.
\<close>

record config =
  OPENAI_API_KEY :: "string option"
  APP_PASSWORD :: string
  PROF_PASSWORD :: string
  SESSION_TTL_MS :: rat
  RATE_LIMIT_WINDOW_MS :: rat
  RATE_LIMIT_MAX_REQUESTS :: rat
  MAX_CONTENT_LENGTH :: rat
  MAX_PODCAST_TEXT_LENGTH :: rat
  MAX_PASSWORD_LENGTH :: rat

text \<open>The values used when the environment sets only the key and the two passwords.\<close>

definition default_config :: "string \<Rightarrow> string \<Rightarrow> string \<Rightarrow> config" where
  "default_config key app prof =
     \<lparr> OPENAI_API_KEY = Some key, APP_PASSWORD = js_trim app, PROF_PASSWORD = js_trim prof,
       SESSION_TTL_MS = 12 * 60 * 60 * 1000, RATE_LIMIT_WINDOW_MS = 60000,
       RATE_LIMIT_MAX_REQUESTS = 30, MAX_CONTENT_LENGTH = 12000,
       MAX_PODCAST_TEXT_LENGTH = 8000, MAX_PASSWORD_LENGTH = 256 \<rparr>"

section \<open>Errors and their normal form\<close>

record apiError =
  status :: int
  code :: string
  message :: string
  details :: jsval
  requestId :: jsval

text \<open>\<^verbatim>\<open>new ApiError(status, code, message, details, requestId)\<close>; an argument left
  out is \<^verbatim>\<open>undefined\<close>.\<close>

definition ApiError :: "int \<Rightarrow> string \<Rightarrow> string \<Rightarrow> jsval \<Rightarrow> jsval \<Rightarrow> apiError" where
  "ApiError s c m d r = \<lparr> status = s, code = c, message = m, details = d, requestId = r \<rparr>"

text \<open>What a \<^verbatim>\<open>catch\<close> block may receive: an ApiError, one of the built-in errors, or
  any other value.\<close>

datatype thrown =
    ApiErr apiError
  | SyntaxError string
  | TypeError string
  | Thrown jsval

record normalized =
  norm_status :: int
  norm_body :: jsval

fun normalizeError :: "thrown \<Rightarrow> normalized" where
  "normalizeError (ApiErr error) =
     \<lparr> norm_status = status error,
       norm_body = JObj [(''error'', JObj
         [(''code'', JStr (code error)),
          (''message'', JStr (message error)),
          (''details'', js_or (details error) JNull),
          (''requestId'', js_or (requestId error) JNull)])] \<rparr>"
| "normalizeError error =
     \<lparr> norm_status = 500,
       norm_body = JObj [(''error'', JObj
         [(''code'', JStr ''INTERNAL_ERROR''),
          (''message'', JStr ''Unexpected server error.''),
          (''details'', JNull),
          (''requestId'', JNull)])] \<rparr>"

text \<open>An HTTP response as the handlers leave it: status, the headers they set, JSON body.\<close>

record response =
  res_status :: int
  res_headers :: "(string \<times> string) list"
  res_body :: jsval

definition sendError :: "(string \<times> string) list \<Rightarrow> thrown \<Rightarrow> response" where
  "sendError hdrs error =
     (let n = normalizeError error
      in \<lparr> res_status = norm_status n, res_headers = hdrs, res_body = norm_body n \<rparr>)"

definition res_json :: "jsval \<Rightarrow> response" where
  "res_json v = \<lparr> res_status = 200, res_headers = [], res_body = v \<rparr>"

section \<open>Validator\<close>

definition quoted :: "string \<Rightarrow> string" where
  "quoted s = [CHR 0x22] @ s @ [CHR 0x22]"

definition readRequiredTextField :: "jsval \<Rightarrow> string \<Rightarrow> rat \<Rightarrow> apiError + string" where
  "readRequiredTextField body fieldName maxLength =
     (if \<not> truthy body \<or> js_typeof body \<noteq> ''object'' \<or> isArray body then
        Inl (ApiError 400 ''INVALID_INPUT'' ''Request body must be a JSON object.''
               JUndefined JUndefined)
      else if js_typeof (getProp body fieldName) \<noteq> ''string'' then
        Inl (ApiError 400 ''INVALID_INPUT''
               (''Field '' @ quoted fieldName @ '' must be a string.'') JUndefined JUndefined)
      else
        (case getProp body fieldName of
           JStr s \<Rightarrow>
             (let v = js_trim s in
              if v = [] then
                Inl (ApiError 400 ''INVALID_INPUT''
                       (''Field '' @ quoted fieldName @ '' cannot be empty.'')
                       JUndefined JUndefined)
              else if of_nat (length v) > maxLength then
                Inl (ApiError 400 ''INPUT_TOO_LARGE''
                       (''Field '' @ quoted fieldName @ '' exceeds maximum length.'')
                       (JObj [(''field'', JStr fieldName), (''maxLength'', JNum maxLength)])
                       JUndefined)
              else Inr v)
         | _ \<Rightarrow>
             Inl (ApiError 400 ''INVALID_INPUT''
                    (''Field '' @ quoted fieldName @ '' must be a string.'')
                    JUndefined JUndefined)))"

section \<open>Session store\<close>

record session =
  expiresAt :: rat
  role :: string

type_synonym sessions = "string \<rightharpoonup> session"

record rateBucket =
  count :: int
  resetAt :: rat

type_synonym buckets = "string \<rightharpoonup> rateBucket"

text \<open>The two process-wide maps \<^verbatim>\<open>rateBuckets\<close> and \<^verbatim>\<open>authSessions\<close>.\<close>

record server =
  rateBuckets :: buckets
  authSessions :: sessions

definition isAuthEnabled :: "config \<Rightarrow> bool" where
  "isAuthEnabled cfg = (length (APP_PASSWORD cfg) > 0)"

text \<open>\<^verbatim>\<open>Buffer.toString("hex")\<close>: two lower-case hexadecimal digits per byte.\<close>

definition hexdigit :: "nat \<Rightarrow> char" where
  "hexdigit n = ''0123456789abcdef'' ! n"

fun toHex :: "8 word list \<Rightarrow> string" where
  "toHex [] = []"
| "toHex (b # bs) = hexdigit (unat b div 16) # hexdigit (unat b mod 16) # toHex bs"

text \<open>
  \<^verbatim>\<open>createSessionToken(role = "student")\<close>. The 32 bytes of \<^verbatim>\<open>crypto.randomBytes\<close> and
  the clock are inputs. The result is the token and the store with the session set.
\<close>

definition createSessionToken ::
  "config \<Rightarrow> 8 word list \<Rightarrow> int \<Rightarrow> string option \<Rightarrow> server \<Rightarrow> string \<times> server" where
  "createSessionToken cfg randomBytes now role_arg srv =
     (let r = (case role_arg of None \<Rightarrow> ''student'' | Some r \<Rightarrow> r);
          token = toHex randomBytes
      in (token,
          srv\<lparr> authSessions := (authSessions srv)
                 (token \<mapsto> \<lparr> expiresAt = of_int now + SESSION_TTL_MS cfg, role = r \<rparr>) \<rparr>))"

text \<open>\<^verbatim>\<open>getBearerToken\<close>, from the value of the Authorization header if there is one.\<close>

definition getBearerToken :: "string option \<Rightarrow> string option" where
  "getBearerToken authorization =
     (let authHeader = (case authorization of None \<Rightarrow> [] | Some h \<Rightarrow> h) in
      if take 7 authHeader \<noteq> ''Bearer '' then None
      else (let token = js_trim (drop 7 authHeader)
            in if token = [] then None else Some token))"

text \<open>
  \<^verbatim>\<open>hasValidSession(token)\<close>. The token is \<^verbatim>\<open>null\<close> (\<open>None\<close>) or a string; the clock
  (\<^verbatim>\<open>Date.now()\<close>, an integer of milliseconds) is an input; an expired entry is deleted
  on the way.
\<close>

definition hasValidSession :: "server \<Rightarrow> int \<Rightarrow> string option \<Rightarrow> bool \<times> server" where
  "hasValidSession srv now token =
     (case token of
        None \<Rightarrow> (False, srv)
      | Some t \<Rightarrow>
          if t = [] then (False, srv)
          else (case authSessions srv t of
                  None \<Rightarrow> (False, srv)
                | Some s \<Rightarrow>
                    if expiresAt s \<le> of_int now
                    then (False, srv\<lparr> authSessions := (authSessions srv)(t := None) \<rparr>)
                    else (True, srv)))"

definition getSessionRole :: "server \<Rightarrow> string option \<Rightarrow> string" where
  "getSessionRole srv token =
     (case token of
        None \<Rightarrow> ''student''
      | Some t \<Rightarrow>
          if t = [] then ''student''
          else (case authSessions srv t of
                  None \<Rightarrow> ''student''
                | Some s \<Rightarrow> if role s = [] then ''student'' else role s))"

section \<open>Rate limiter\<close>

text \<open>What the middleware needs of a request: \<^verbatim>\<open>req.ip\<close> and the socket's address.\<close>

record request =
  ip :: "string option"
  remoteAddress :: "string option"

definition getClientIp :: "request \<Rightarrow> string" where
  "getClientIp req =
     (case ip req of
        Some a \<Rightarrow> if a \<noteq> [] then a
                  else (case remoteAddress req of
                          Some r \<Rightarrow> if r \<noteq> [] then r else ''unknown''
                        | None \<Rightarrow> ''unknown'')
      | None \<Rightarrow> (case remoteAddress req of
                   Some r \<Rightarrow> if r \<noteq> [] then r else ''unknown''
                 | None \<Rightarrow> ''unknown''))"

text \<open>The constant \<^verbatim>\<open>retryAfterSeconds\<close> of line 99; \<^verbatim>\<open>Math.ceil\<close> is the ceiling.\<close>

definition retryAfterSeconds :: "rateBucket \<Rightarrow> int \<Rightarrow> int" where
  "retryAfterSeconds current now = max 1 \<lceil>(resetAt current - of_int now) / 1000\<rceil>"

text \<open>The middleware either calls \<^verbatim>\<open>next()\<close> or answers the request itself.\<close>

datatype outcome = Next | Sent response

definition rateLimitMiddleware :: "config \<Rightarrow> server \<Rightarrow> request \<Rightarrow> int \<Rightarrow> outcome \<times> server" where
  "rateLimitMiddleware cfg srv req now =
     (let client = getClientIp req;
          fresh = (Next, srv\<lparr> rateBuckets := (rateBuckets srv)
                     (client \<mapsto> \<lparr> count = 1, resetAt = of_int now + RATE_LIMIT_WINDOW_MS cfg \<rparr>) \<rparr>)
      in case rateBuckets srv client of
           None \<Rightarrow> fresh
         | Some current \<Rightarrow>
             if resetAt current \<le> of_int now then fresh
             else if of_int (count current) \<ge> RATE_LIMIT_MAX_REQUESTS cfg then
               (Sent (sendError [(''Retry-After'', js_String (retryAfterSeconds current now))]
                  (ApiErr (ApiError 429 ''RATE_LIMITED'' ''Too many requests. Please retry later.''
                     (JObj [(''retryAfterSeconds'', JNum (of_int (retryAfterSeconds current now))),
                            (''windowMs'', JNum (RATE_LIMIT_WINDOW_MS cfg)),
                            (''maxRequests'', JNum (RATE_LIMIT_MAX_REQUESTS cfg))])
                     JUndefined))),
                srv)
             else
               (Next, srv\<lparr> rateBuckets := (rateBuckets srv)
                         (client \<mapsto> current\<lparr> count := count current + 1 \<rparr>) \<rparr>))"


text \<open>
  A history of the rate limiter: requests under \<^verbatim>\<open>/api\<close>, each passing the
  middleware at its own clock reading, and runs of the timer.
\<close>

datatype event = Request request int | Sweep int




text \<open>The requests of one client in a history, and those of them the middleware let pass.\<close>

fun from_client :: "string \<Rightarrow> event \<Rightarrow> bool" where
  "from_client c (Request req now) = (getClientIp req = c)"
| "from_client c (Sweep now) = False"


fun requests :: "string \<Rightarrow> event list \<Rightarrow> nat" where
  "requests c [] = 0"
| "requests c (e # es) = (if from_client c e then 1 else 0) + requests c es"


section \<open>Login and status handlers\<close>

text \<open>
  The French messages contain an apostrophe (code unit 0x27) and an e with acute accent
  (code unit 0xE9).
\<close>

definition msg_app_password_missing :: string where
  "msg_app_password_missing =
     ''APP_PASSWORD n'' @ [CHR 0x27] @ ''est pas configur'' @ [CHR 0xE9] @ '' sur le serveur.''"

definition msg_prof_password_missing :: string where
  "msg_prof_password_missing =
     ''PROF_PASSWORD n'' @ [CHR 0x27] @ ''est pas configur'' @ [CHR 0xE9] @ '' sur le serveur.''"

text \<open>
  \<^verbatim>\<open>POST /api/auth/login\<close> (lines 259 to 279). Inputs: the parsed body, the bytes that
  \<^verbatim>\<open>crypto.randomBytes\<close> would return and the clock. Every \<^verbatim>\<open>throw\<close> of the
  \<^verbatim>\<open>try\<close> block ends in \<^verbatim>\<open>sendError\<close>, before the store is touched.
\<close>

definition login :: "config \<Rightarrow> server \<Rightarrow> jsval \<Rightarrow> 8 word list \<Rightarrow> int \<Rightarrow> response \<times> server" where
  "login cfg srv body randomBytes now =
     (if \<not> isAuthEnabled cfg then
        (sendError [] (ApiErr (ApiError 500 ''AUTH_NOT_CONFIGURED'' msg_app_password_missing
                                 JUndefined JUndefined)), srv)
      else
        (case readRequiredTextField body ''password'' (MAX_PASSWORD_LENGTH cfg) of
           Inl e \<Rightarrow> (sendError [] (ApiErr e), srv)
         | Inr password \<Rightarrow>
             if password \<noteq> APP_PASSWORD cfg then
               (sendError [] (ApiErr (ApiError 401 ''INVALID_CREDENTIALS''
                                        ''Mot de passe incorrect.'' JUndefined JUndefined)), srv)
             else
               (let created = createSessionToken cfg randomBytes now None srv
                in (res_json (JObj [(''token'', JStr (fst created)),
                                    (''role'', JStr ''student''),
                                    (''expiresInMs'', JNum (SESSION_TTL_MS cfg))]),
                    snd created))))"

text \<open>\<^verbatim>\<open>POST /api/auth/prof-login\<close> (lines 281 to 304).\<close>

definition profLogin :: "config \<Rightarrow> server \<Rightarrow> jsval \<Rightarrow> 8 word list \<Rightarrow> int \<Rightarrow> response \<times> server" where
  "profLogin cfg srv body randomBytes now =
     (if \<not> isAuthEnabled cfg then
        (sendError [] (ApiErr (ApiError 500 ''AUTH_NOT_CONFIGURED'' msg_app_password_missing
                                 JUndefined JUndefined)), srv)
      else if PROF_PASSWORD cfg = [] then
        (sendError [] (ApiErr (ApiError 500 ''PROF_AUTH_NOT_CONFIGURED'' msg_prof_password_missing
                                 JUndefined JUndefined)), srv)
      else
        (case readRequiredTextField body ''password'' (MAX_PASSWORD_LENGTH cfg) of
           Inl e \<Rightarrow> (sendError [] (ApiErr e), srv)
         | Inr password \<Rightarrow>
             if password \<noteq> PROF_PASSWORD cfg then
               (sendError [] (ApiErr (ApiError 401 ''INVALID_CREDENTIALS''
                                        ''Mot de passe professeur incorrect.''
                                        JUndefined JUndefined)), srv)
             else
               (let created = createSessionToken cfg randomBytes now (Some ''professor'') srv
                in (res_json (JObj [(''token'', JStr (fst created)),
                                    (''role'', JStr ''professor''),
                                    (''expiresInMs'', JNum (SESSION_TTL_MS cfg))]),
                    snd created))))"

text \<open>
  \<^verbatim>\<open>GET /api/auth/status\<close> (lines 306 to 321). \<^verbatim>\<open>hasValidSession\<close> is called twice,
  once for \<^verbatim>\<open>authenticated\<close> and once to guard \<^verbatim>\<open>getSessionRole\<close>; each call
  reads the clock.
\<close>

definition authStatus ::
  "config \<Rightarrow> server \<Rightarrow> string option \<Rightarrow> int \<Rightarrow> int \<Rightarrow> response \<times> server" where
  "authStatus cfg srv authorization now1 now2 =
     (if \<not> isAuthEnabled cfg then
        (res_json (JObj [(''authEnabled'', JBool False), (''authenticated'', JBool True)]), srv)
      else
        (let token = getBearerToken authorization;
             first = hasValidSession srv now1 token;
             second = hasValidSession (snd first) now2 token
         in (res_json (JObj [(''authEnabled'', JBool True),
                             (''authenticated'', JBool (fst first)),
                             (''role'', JStr (if fst second
                                              then getSessionRole (snd second) token
                                              else ''student''))]),
             snd second)))"

text \<open>The trimmed password a login body carries, when its \<^verbatim>\<open>password\<close> field is a string.\<close>

definition submitted :: "jsval \<Rightarrow> string option" where
  "submitted body =
     (case body of
        JObj kvs \<Rightarrow> (case map_of kvs ''password'' of Some (JStr p) \<Rightarrow> Some (js_trim p) | _ \<Rightarrow> None)
      | _ \<Rightarrow> None)"

section \<open>Upstream gateway\<close>

text \<open>
  What the server reads of an upstream response: the status, the headers, and what
  \<^verbatim>\<open>response.json()\<close> and \<^verbatim>\<open>response.text()\<close> resolve to (\<open>None\<close> when the
  promise rejects).
\<close>

record upstream =
  up_status :: int
  up_headers :: "string \<rightharpoonup> string"
  up_json :: "jsval option"
  up_text :: "string option"

definition up_ok :: "upstream \<Rightarrow> bool" where
  "up_ok r = (200 \<le> up_status r \<and> up_status r \<le> 299)"

text \<open>\<^verbatim>\<open>s.includes(t)\<close>: \<open>t\<close> occurs in \<open>s\<close>.\<close>

fun js_includes :: "string \<Rightarrow> string \<Rightarrow> bool" where
  "js_includes [] t = (t = [])"
| "js_includes (c # cs) t = (take (length t) (c # cs) = t \<or> js_includes cs t)"

definition upstreamMessage :: "upstream \<Rightarrow> jsval" where
  "upstreamMessage r =
     (let contentType = (case up_headers r ''content-type'' of None \<Rightarrow> [] | Some v \<Rightarrow> v);
          parsed = (if js_includes contentType ''application/json''
                    then (case up_json r of None \<Rightarrow> JNull | Some v \<Rightarrow> v) else JNull);
          raw = (if js_includes contentType ''application/json'' then []
                 else (case up_text r of None \<Rightarrow> [] | Some t \<Rightarrow> t))
      in js_or (js_or (opt_prop (opt_prop parsed ''error'') ''message'') (JStr raw))
               (JStr ''OpenAI request failed.''))"

definition readOpenAiError :: "upstream \<Rightarrow> apiError" where
  "readOpenAiError r =
     (let rid = (case up_headers r ''x-request-id'' of None \<Rightarrow> JNull | Some v \<Rightarrow> JStr v);
          d = JObj [(''upstreamMessage'', upstreamMessage r)]
      in if up_status r = 429 then
           ApiError 429 ''UPSTREAM_RATE_LIMIT'' ''OpenAI rate limit reached. Retry later.'' d rid
         else if up_status r = 401 \<or> up_status r = 403 then
           ApiError 502 ''UPSTREAM_AUTH_ERROR'' ''Upstream authentication failed.'' d rid
         else if up_status r \<ge> 500 then
           ApiError 502 ''UPSTREAM_UNAVAILABLE'' ''OpenAI service is temporarily unavailable.'' d rid
         else ApiError 502 ''UPSTREAM_ERROR'' ''OpenAI request failed.'' d rid)"

text \<open>
  \<^verbatim>\<open>openaiJson\<close> (lines 234 to 255). The outcome of \<^verbatim>\<open>fetch\<close> is an input: the
  value it rejects with, or the response.
\<close>

definition openaiJson :: "config \<Rightarrow> thrown + upstream \<Rightarrow> thrown + jsval" where
  "openaiJson cfg fetched =
     (if OPENAI_API_KEY cfg = None \<or> OPENAI_API_KEY cfg = Some [] then
        Inl (ApiErr (ApiError 500 ''MISSING_API_KEY'' ''Missing OPENAI_API_KEY on server.''
                       JUndefined JUndefined))
      else
        (case fetched of
           Inl x \<Rightarrow> Inl x
         | Inr r \<Rightarrow>
             if \<not> up_ok r then Inl (ApiErr (readOpenAiError r))
             else (let data = (case up_json r of None \<Rightarrow> JNull | Some v \<Rightarrow> v)
                   in if \<not> truthy data then
                        Inl (ApiErr (ApiError 502 ''UPSTREAM_INVALID_RESPONSE''
                                       ''OpenAI returned invalid JSON.'' JUndefined JUndefined))
                      else Inr data)))"

text \<open>
  \<^verbatim>\<open>POST /api/flashcards\<close> (lines 357 to 414). \<^verbatim>\<open>JSON.parse\<close> is a parameter: it
  takes the value it is given and returns the parsed value, or \<open>None\<close> where it throws a
  SyntaxError; reading a property of \<^verbatim>\<open>null\<close> throws a TypeError. First the text
  handed to the parser (line 403), then the \<^verbatim>\<open>try\<close> block, then the handler with its
  \<^verbatim>\<open>catch\<close>.
\<close>

definition contentText :: "jsval \<Rightarrow> jsval" where
  "contentText resp =
     js_or (opt_prop (opt_prop (opt_index0 (opt_prop resp ''choices'')) ''message'') ''content'')
           (JStr ''{}'')"

definition flashcards_try ::
  "config \<Rightarrow> (jsval \<Rightarrow> jsval option) \<Rightarrow> jsval \<Rightarrow> thrown + upstream \<Rightarrow> thrown + response" where
  "flashcards_try cfg JSON_parse body fetched =
     (case readRequiredTextField body ''content'' (MAX_CONTENT_LENGTH cfg) of
        Inl e \<Rightarrow> Inl (ApiErr e)
      | Inr content \<Rightarrow>
          (case openaiJson cfg fetched of
             Inl x \<Rightarrow> Inl x
           | Inr resp \<Rightarrow>
               (case JSON_parse (contentText resp) of
                  None \<Rightarrow> Inl (SyntaxError ''JSON.parse'')
                | Some parsed \<Rightarrow>
                    if nullish parsed then Inl (TypeError ''Cannot read properties'')
                    else Inr (res_json (JObj [(''flashcards'',
                           if isArray (getProp parsed ''flashcards'')
                           then getProp parsed ''flashcards'' else JArr [])])))))"

definition flashcards ::
  "config \<Rightarrow> (jsval \<Rightarrow> jsval option) \<Rightarrow> jsval \<Rightarrow> thrown + upstream \<Rightarrow> response" where
  "flashcards cfg JSON_parse body fetched =
     (case flashcards_try cfg JSON_parse body fetched of
        Inr res \<Rightarrow> res
      | Inl (SyntaxError m) \<Rightarrow>
          sendError [] (ApiErr (ApiError 502 ''UPSTREAM_INVALID_RESPONSE''
                                  ''Invalid flashcards payload from OpenAI.'' JUndefined JUndefined))
      | Inl error \<Rightarrow> sendError [] error)"

section \<open>Reading a response, and example data\<close>

text \<open>The field \<open>k\<close> of the \<^verbatim>\<open>error\<close> object in a response body.\<close>

definition error_field :: "response \<Rightarrow> string \<Rightarrow> jsval" where
  "error_field resp k = getProp (getProp (res_body resp) ''error'') k"

text \<open>A configuration with a cap of two requests per window, an empty server and a client.\<close>

definition example_config :: config where
  "example_config =
     (default_config ''sk-key'' ''secret'' ''prof-secret'')\<lparr> RATE_LIMIT_MAX_REQUESTS := 2 \<rparr>"



definition empty_server :: server where
  "empty_server = \<lparr> rateBuckets = Map.empty, authSessions = Map.empty \<rparr>"

definition example_client :: request where
  "example_client = \<lparr> ip = Some ''10.0.0.1'', remoteAddress = None \<rparr>"

text \<open>A server where the client has used three requests of a window that ends at 5000.\<close>

definition busy_server :: server where
  "busy_server = \<lparr> rateBuckets = [''10.0.0.1'' \<mapsto> \<lparr> count = 3, resetAt = 5000 \<rparr>],
                    authSessions = Map.empty \<rparr>"

text \<open>An upstream failure whose \<^verbatim>\<open>x-request-id\<close> header is present and empty.\<close>

definition empty_request_id_response :: upstream where
  "empty_request_id_response =
     \<lparr> up_status = 503, up_headers = [''x-request-id'' \<mapsto> ''''],
       up_json = None, up_text = Some ''upstream down'' \<rparr>"




text \<open>A server that still holds a professor's session that expired at 5000.\<close>

definition stale_server :: server where
  "stale_server = \<lparr> rateBuckets = Map.empty,
                     authSessions = [''ab12'' \<mapsto> \<lparr> expiresAt = 5000, role = ''professor'' \<rparr>] \<rparr>"

text \<open>
  A login is refused with status \<open>st\<close> and code \<open>c\<close>: that is the answer, it carries no
  token, and the server state is the one before the call.
\<close>

definition refused :: "int \<Rightarrow> string \<Rightarrow> server \<Rightarrow> response \<times> server \<Rightarrow> bool" where
  "refused st c srv out =
     (res_status (fst out) = st \<and> error_field (fst out) ''code'' = JStr c
      \<and> getProp (res_body (fst out)) ''token'' = JUndefined \<and> snd out = srv)"

text \<open>
  The example configuration with a password limit of four characters, and with no base
  password.
\<close>

definition short_limit_config :: config where
  "short_limit_config = example_config\<lparr> MAX_PASSWORD_LENGTH := 4 \<rparr>"

definition open_config :: config where
  "open_config = example_config\<lparr> APP_PASSWORD := [] \<rparr>"

text \<open>A login body with a password of 257 characters, and one with a given password.\<close>

definition long_password_body :: jsval where
  "long_password_body = JObj [(''password'', JStr (replicate 257 CHR ''x''))]"

definition password_body :: "string \<Rightarrow> jsval" where
  "password_body p = JObj [(''password'', JStr p)]"

text \<open>
  A successful chat completion whose first message has the given content, a request
  body for the flashcards endpoint, and a parser that knows the JSON text \<^verbatim>\<open>null\<close>
  only.
\<close>

definition chat_reply :: "string \<Rightarrow> upstream" where
  "chat_reply c =
     \<lparr> up_status = 200, up_headers = [''content-type'' \<mapsto> ''application/json''],
       up_json = Some (JObj [(''choices'',
                   JArr [JObj [(''message'', JObj [(''content'', JStr c)])]])]),
       up_text = None \<rparr>"

definition notes_body :: jsval where
  "notes_body = JObj [(''content'', JStr ''The cell is the unit of life.'')]"

definition parse_null :: "jsval \<Rightarrow> jsval option" where
  "parse_null v = (if v = JStr ''null'' then Some JNull else None)"

section \<open>Session store: properties\<close>

text \<open>
  C1. \<^verbatim>\<open>isValid(token)\<close> is false whenever the token is empty, is not in the session
  store, or its session has \<open>expiresAt \<le> now\<close> at the moment of the call. The store is
  arbitrary, so the expired session may still be in it: no sweep is needed.
\<close>

theorem hasValidSession_rejects:
  assumes "token = None \<or> token = Some []
           \<or> (\<exists>t. token = Some t \<and> authSessions srv t = None)
           \<or> (\<exists>t s. token = Some t \<and> authSessions srv t = Some s \<and> expiresAt s \<le> of_int now)"
  shows "fst (hasValidSession srv now token) = False"
  using assms by (auto simp: hasValidSession_def split: option.splits)

theorem hasValidSession_rejects_witness:
  "authSessions \<lparr> rateBuckets = Map.empty,
                  authSessions = [''ab12'' \<mapsto> \<lparr> expiresAt = 5000, role = ''professor'' \<rparr>] \<rparr> ''ab12''
     = Some \<lparr> expiresAt = 5000, role = ''professor'' \<rparr>
   \<and> (5000::rat) \<le> of_int 5000
   \<and> fst (hasValidSession
            \<lparr> rateBuckets = Map.empty,
              authSessions = [''ab12'' \<mapsto> \<lparr> expiresAt = 5000, role = ''professor'' \<rparr>] \<rparr>
            5000 (Some ''ab12'')) = False"
  using hasValidSession_rejects
    [of "Some ''ab12''"
        "\<lparr> rateBuckets = Map.empty,
           authSessions = [''ab12'' \<mapsto> \<lparr> expiresAt = 5000, role = ''professor'' \<rparr>] \<rparr>"
        5000]
  by simp

section \<open>Rate limiter: properties\<close>













text \<open>
  C10. When the middleware denies a request (the client's bucket is unexpired and its
  count has reached the cap), the answer is the 429 error and the server state after
  the call is the state before it: the client's bucket keeps its count and its
  \<open>resetAt\<close>, and the bucket of every other client is untouched.
\<close>

theorem denied_frame:
  assumes "rateBuckets srv (getClientIp req) = Some b" "of_int now < resetAt b"
    "RATE_LIMIT_MAX_REQUESTS cfg \<le> of_int (count b)"
  shows "(\<exists>resp. fst (rateLimitMiddleware cfg srv req now) = Sent resp \<and> res_status resp = 429
            \<and> error_field resp ''code'' = JStr ''RATE_LIMITED'')
       \<and> snd (rateLimitMiddleware cfg srv req now) = srv
       \<and> rateBuckets (snd (rateLimitMiddleware cfg srv req now)) (getClientIp req) = Some b
       \<and> (\<forall>c. rateBuckets (snd (rateLimitMiddleware cfg srv req now)) c = rateBuckets srv c)"
  using assms
  by (simp add: rateLimitMiddleware_def Let_def sendError_def ApiError_def error_field_def)

theorem denied_frame_witness:
  "(\<exists>resp. fst (rateLimitMiddleware example_config busy_server example_client 4999) = Sent resp
       \<and> res_status resp = 429)
   \<and> snd (rateLimitMiddleware example_config busy_server example_client 4999) = busy_server"
proof -
  have c: "getClientIp example_client = ''10.0.0.1''"
    by (simp add: getClientIp_def example_client_def)
  have b: "rateBuckets busy_server (getClientIp example_client)
             = Some \<lparr> count = 3, resetAt = 5000 \<rparr>"
    by (simp add: busy_server_def c)
  have t: "of_int 4999 < resetAt \<lparr> count = 3, resetAt = 5000 \<rparr>" by simp
  have full: "RATE_LIMIT_MAX_REQUESTS example_config
                \<le> of_int (count \<lparr> count = 3, resetAt = 5000 \<rparr>)"
    by (simp add: example_config_def default_config_def)
  from denied_frame [OF b t full] show ?thesis by blast
qed

section \<open>Validator: properties\<close>

text \<open>
  C5. For every body, field name and maximal length, \<^verbatim>\<open>requireText\<close> fails with
  status 400 and code \<^verbatim>\<open>INVALID_INPUT\<close> when the body is not an object (arrays, null
  and primitives included), when the field is missing or not a string, and when the
  field trims to the empty string. For a field that trims to a non-empty string it fails
  with \<^verbatim>\<open>INPUT_TOO_LARGE\<close> and the details \<open>{field, maxLength}\<close> when the trimmed
  length exceeds the maximal length, and otherwise returns the trimmed string.
\<close>

theorem readRequiredTextField_cases:
  "((\<forall>kvs. body \<noteq> JObj kvs) \<longrightarrow>
      (\<exists>e. readRequiredTextField body fieldName maxLength = Inl e
          \<and> status e = 400 \<and> code e = ''INVALID_INPUT''))
   \<and> (body = JObj kvs \<and> (\<forall>s. map_of kvs fieldName \<noteq> Some (JStr s)) \<longrightarrow>
      (\<exists>e. readRequiredTextField body fieldName maxLength = Inl e
          \<and> status e = 400 \<and> code e = ''INVALID_INPUT''))
   \<and> (body = JObj kvs \<and> map_of kvs fieldName = Some (JStr s) \<and> js_trim s = [] \<longrightarrow>
      (\<exists>e. readRequiredTextField body fieldName maxLength = Inl e
          \<and> status e = 400 \<and> code e = ''INVALID_INPUT''))
   \<and> (body = JObj kvs \<and> map_of kvs fieldName = Some (JStr s) \<and> js_trim s \<noteq> []
        \<and> maxLength < of_nat (length (js_trim s)) \<longrightarrow>
      (\<exists>e. readRequiredTextField body fieldName maxLength = Inl e
          \<and> status e = 400 \<and> code e = ''INPUT_TOO_LARGE''
          \<and> details e = JObj [(''field'', JStr fieldName), (''maxLength'', JNum maxLength)]))
   \<and> (body = JObj kvs \<and> map_of kvs fieldName = Some (JStr s) \<and> js_trim s \<noteq> []
        \<and> of_nat (length (js_trim s)) \<le> maxLength \<longrightarrow>
      readRequiredTextField body fieldName maxLength = Inr (js_trim s))"
proof -
  have not_object: "(\<forall>kvs. body \<noteq> JObj kvs) \<Longrightarrow>
      \<not> truthy body \<or> js_typeof body \<noteq> ''object'' \<or> isArray body"
    by (cases body) simp_all
  have a: "(\<forall>kvs. body \<noteq> JObj kvs) \<longrightarrow>
      (\<exists>e. readRequiredTextField body fieldName maxLength = Inl e
          \<and> status e = 400 \<and> code e = ''INVALID_INPUT'')"
    using not_object by (auto simp: readRequiredTextField_def ApiError_def)
  have not_string: "(\<forall>s. map_of kvs fieldName \<noteq> Some (JStr s)) \<Longrightarrow>
      js_typeof (getProp (JObj kvs) fieldName) \<noteq> ''string''"
    by (cases "map_of kvs fieldName") (auto split: jsval.splits elim: js_typeof.elims)
  have b: "body = JObj kvs \<and> (\<forall>s. map_of kvs fieldName \<noteq> Some (JStr s)) \<longrightarrow>
      (\<exists>e. readRequiredTextField body fieldName maxLength = Inl e
          \<and> status e = 400 \<and> code e = ''INVALID_INPUT'')"
    using not_string by (auto simp: readRequiredTextField_def ApiError_def)
  have rest: "body = JObj kvs \<and> map_of kvs fieldName = Some (JStr s) \<Longrightarrow>
      readRequiredTextField body fieldName maxLength =
        (if js_trim s = [] then
           Inl (ApiError 400 ''INVALID_INPUT''
                  (''Field '' @ quoted fieldName @ '' cannot be empty.'') JUndefined JUndefined)
         else if of_nat (length (js_trim s)) > maxLength then
           Inl (ApiError 400 ''INPUT_TOO_LARGE''
                  (''Field '' @ quoted fieldName @ '' exceeds maximum length.'')
                  (JObj [(''field'', JStr fieldName), (''maxLength'', JNum maxLength)]) JUndefined)
         else Inr (js_trim s))"
    by (simp add: readRequiredTextField_def Let_def)
  from a b rest show ?thesis by (auto simp: ApiError_def)
qed

theorem readRequiredTextField_cases_witness:
  "readRequiredTextField (JObj [(''content'', JStr ''  hello '')]) ''content'' 12000 = Inr ''hello''
   \<and> (\<exists>e. readRequiredTextField (JObj [(''content'', JStr ''  hello '')]) ''content'' 3 = Inl e
          \<and> status e = 400 \<and> code e = ''INPUT_TOO_LARGE''
          \<and> details e = JObj [(''field'', JStr ''content''), (''maxLength'', JNum 3)])
   \<and> (\<exists>e. readRequiredTextField (JArr [JStr ''hello'']) ''content'' 12000 = Inl e
          \<and> status e = 400 \<and> code e = ''INVALID_INPUT'')
   \<and> (\<exists>e. readRequiredTextField (JObj [(''content'', JNum 7)]) ''content'' 12000 = Inl e
          \<and> status e = 400 \<and> code e = ''INVALID_INPUT'')
   \<and> (\<exists>e. readRequiredTextField (JObj [(''content'', JStr ''   '')]) ''content'' 12000 = Inl e
          \<and> status e = 400 \<and> code e = ''INVALID_INPUT'')"
proof -
  have t: "js_trim ''  hello '' = ''hello''" and e: "js_trim ''   '' = []"
    by (simp_all add: js_trim_def js_whitespace_def)
  note a = readRequiredTextField_cases
      [where body = "JObj [(''content'', JStr ''  hello '')]" and fieldName = "''content''"
         and kvs = "[(''content'', JStr ''  hello '')]" and s = "''  hello ''"]
  note b = readRequiredTextField_cases
      [where body = "JArr [JStr ''hello'']" and fieldName = "''content''" and maxLength = 12000]
  note c = readRequiredTextField_cases
      [where body = "JObj [(''content'', JNum 7)]" and fieldName = "''content''"
         and kvs = "[(''content'', JNum 7)]" and maxLength = 12000]
  note d = readRequiredTextField_cases
      [where body = "JObj [(''content'', JStr ''   '')]" and fieldName = "''content''"
         and kvs = "[(''content'', JStr ''   '')]" and s = "''   ''" and maxLength = 12000]
  from a [where maxLength = 12000] have 1:
    "readRequiredTextField (JObj [(''content'', JStr ''  hello '')]) ''content'' 12000 = Inr ''hello''"
    by (simp add: t)
  from a [where maxLength = 3] have 2:
    "\<exists>e. readRequiredTextField (JObj [(''content'', JStr ''  hello '')]) ''content'' 3 = Inl e
          \<and> status e = 400 \<and> code e = ''INPUT_TOO_LARGE''
          \<and> details e = JObj [(''field'', JStr ''content''), (''maxLength'', JNum 3)]"
    by (simp add: t)
  from b have 3:
    "\<exists>e. readRequiredTextField (JArr [JStr ''hello'']) ''content'' 12000 = Inl e
          \<and> status e = 400 \<and> code e = ''INVALID_INPUT''"
    by simp
  from c have 4:
    "\<exists>e. readRequiredTextField (JObj [(''content'', JNum 7)]) ''content'' 12000 = Inl e
          \<and> status e = 400 \<and> code e = ''INVALID_INPUT''"
    by simp
  from d have 5:
    "\<exists>e. readRequiredTextField (JObj [(''content'', JStr ''   '')]) ''content'' 12000 = Inl e
          \<and> status e = 400 \<and> code e = ''INVALID_INPUT''"
    by (simp add: e)
  from 1 2 3 4 5 show ?thesis by blast
qed

section \<open>Error normalizer and upstream errors: properties\<close>

text \<open>
  C6 (amended). The normalizer is total: every thrown value gets the shape
  \<open>{status, body: {error: {code, message, details, requestId}}}\<close>. An ApiError keeps its
  status, code and message; its details and its requestId are kept when they are truthy
  and become \<^verbatim>\<open>null\<close> otherwise (undefined, null, the empty string). Any other value
  gives status 500, code \<^verbatim>\<open>INTERNAL_ERROR\<close>, the generic message, null details and a
  null requestId.
\<close>

theorem normalizeError_total:
  "(\<exists>c m d r. norm_body (normalizeError x)
       = JObj [(''error'', JObj [(''code'', JStr c), (''message'', JStr m),
                                 (''details'', d), (''requestId'', r)])])
   \<and> (x = ApiErr e \<longrightarrow>
        normalizeError x =
          \<lparr> norm_status = status e,
            norm_body = JObj [(''error'', JObj
              [(''code'', JStr (code e)), (''message'', JStr (message e)),
               (''details'', if truthy (details e) then details e else JNull),
               (''requestId'', if truthy (requestId e) then requestId e else JNull)])] \<rparr>)
   \<and> ((\<forall>a. x \<noteq> ApiErr a) \<longrightarrow>
        normalizeError x =
          \<lparr> norm_status = 500,
            norm_body = JObj [(''error'', JObj
              [(''code'', JStr ''INTERNAL_ERROR''), (''message'', JStr ''Unexpected server error.''),
               (''details'', JNull), (''requestId'', JNull)])] \<rparr>)"
  by (cases x) (simp_all add: js_or_def)

theorem normalizeError_total_witness:
  "normalizeError (ApiErr (ApiError 401 ''UNAUTHORIZED'' ''no session'' JUndefined JUndefined))
     = \<lparr> norm_status = 401,
         norm_body = JObj [(''error'', JObj
           [(''code'', JStr ''UNAUTHORIZED''), (''message'', JStr ''no session''),
            (''details'', JNull), (''requestId'', JNull)])] \<rparr>
   \<and> normalizeError (Thrown (JStr ''boom''))
     = \<lparr> norm_status = 500,
         norm_body = JObj [(''error'', JObj
           [(''code'', JStr ''INTERNAL_ERROR''), (''message'', JStr ''Unexpected server error.''),
            (''details'', JNull), (''requestId'', JNull)])] \<rparr>"
  using normalizeError_total
          [of "ApiErr (ApiError 401 ''UNAUTHORIZED'' ''no session'' JUndefined JUndefined)"
              "ApiError 401 ''UNAUTHORIZED'' ''no session'' JUndefined JUndefined"]
        normalizeError_total [of "Thrown (JStr ''boom'')"]
  by (simp add: ApiError_def)

text \<open>
  C6 as stated fails: an upstream failure whose \<^verbatim>\<open>x-request-id\<close> header is empty
  becomes an ApiError with requestId \<^verbatim>\<open>""\<close>, which the normalizer reports as
  \<^verbatim>\<open>null\<close>, not verbatim.
\<close>

theorem normalizeError_verbatim_counterexample:
  "requestId (readOpenAiError empty_request_id_response) = JStr []
   \<and> getProp (getProp (norm_body (normalizeError (ApiErr (readOpenAiError empty_request_id_response))))
                ''error'') ''requestId'' = JNull"
  by (simp add: readOpenAiError_def empty_request_id_response_def ApiError_def Let_def js_or_def)








section \<open>Roles: properties\<close>

text \<open>
  C4 as stated fails: \<^verbatim>\<open>getSessionRole\<close> does not read the clock. For a professor's
  session that has expired and is still in the store, \<^verbatim>\<open>isValid\<close> is false and
  \<^verbatim>\<open>roleOf\<close> is \<^verbatim>\<open>"professor"\<close>, not the default.
\<close>

theorem getSessionRole_expired_counterexample:
  "authSessions stale_server ''ab12'' = Some \<lparr> expiresAt = 5000, role = ''professor'' \<rparr>
   \<and> fst (hasValidSession stale_server 9000 (Some ''ab12'')) = False
   \<and> getSessionRole stale_server (Some ''ab12'') = ''professor''
   \<and> getSessionRole stale_server (Some ''ab12'') \<noteq> ''student''"
  by (simp add: stale_server_def hasValidSession_def getSessionRole_def)

lemma hasValidSession_true:
  "fst (hasValidSession srv now token) \<Longrightarrow>
   snd (hasValidSession srv now token) = srv
   \<and> (\<exists>t s. token = Some t \<and> t \<noteq> [] \<and> authSessions srv t = Some s \<and> of_int now < expiresAt s)"
  by (auto simp: hasValidSession_def split: option.splits if_splits)

lemma hasValidSession_false_role:
  "\<not> fst (hasValidSession srv now token) \<Longrightarrow>
   getSessionRole (snd (hasValidSession srv now token)) token = ''student''"
  by (auto simp: hasValidSession_def getSessionRole_def split: option.splits if_splits)

text \<open>
  C4 (amended). \<^verbatim>\<open>roleOf(token)\<close> is \<^verbatim>\<open>"student"\<close> for an empty or unknown token.
  For a token in the store it is the stored role (\<^verbatim>\<open>"student"\<close> when that role is
  empty), whether or not the session has expired. The default for an expired session
  comes from calling \<^verbatim>\<open>isValid\<close> first: when \<^verbatim>\<open>isValid\<close> answers false, \<^verbatim>\<open>roleOf\<close>
  on the store it leaves is \<^verbatim>\<open>"student"\<close>; and the status endpoint, which guards
  \<^verbatim>\<open>roleOf\<close> by \<^verbatim>\<open>isValid\<close>, reports a role other than \<^verbatim>\<open>"student"\<close> only for a
  session that is unexpired at both of its clock readings, and then the stored role.
\<close>

theorem getSessionRole_cases:
  "(token = None \<or> token = Some [] \<or> (\<exists>t. token = Some t \<and> authSessions srv t = None)
      \<longrightarrow> getSessionRole srv token = ''student'')
   \<and> (token = Some t \<and> t \<noteq> [] \<and> authSessions srv t = Some s
      \<longrightarrow> getSessionRole srv token = (if role s = [] then ''student'' else role s))
   \<and> (\<not> fst (hasValidSession srv now token)
      \<longrightarrow> getSessionRole (snd (hasValidSession srv now token)) token = ''student'')
   \<and> (isAuthEnabled cfg
        \<and> getProp (res_body (fst (authStatus cfg srv authorization now1 now2))) ''role''
            \<noteq> JStr ''student''
      \<longrightarrow> (\<exists>t s. getBearerToken authorization = Some t \<and> authSessions srv t = Some s
                 \<and> of_int now1 < expiresAt s \<and> of_int now2 < expiresAt s
                 \<and> getProp (res_body (fst (authStatus cfg srv authorization now1 now2))) ''role''
                     = JStr (role s)))"
proof -
  have a: "token = None \<or> token = Some [] \<or> (\<exists>t. token = Some t \<and> authSessions srv t = None)
      \<longrightarrow> getSessionRole srv token = ''student''"
    by (auto simp: getSessionRole_def)
  have b: "token = Some t \<and> t \<noteq> [] \<and> authSessions srv t = Some s
      \<longrightarrow> getSessionRole srv token = (if role s = [] then ''student'' else role s)"
    by (simp add: getSessionRole_def)
  have c: "\<not> fst (hasValidSession srv now token)
      \<longrightarrow> getSessionRole (snd (hasValidSession srv now token)) token = ''student''"
    by (simp add: hasValidSession_false_role)
  have d: "isAuthEnabled cfg
        \<and> getProp (res_body (fst (authStatus cfg srv authorization now1 now2))) ''role''
            \<noteq> JStr ''student''
      \<longrightarrow> (\<exists>t s. getBearerToken authorization = Some t \<and> authSessions srv t = Some s
                 \<and> of_int now1 < expiresAt s \<and> of_int now2 < expiresAt s
                 \<and> getProp (res_body (fst (authStatus cfg srv authorization now1 now2))) ''role''
                     = JStr (role s))"
  proof
    let ?tok = "getBearerToken authorization"
    let ?first = "hasValidSession srv now1 ?tok"
    let ?second = "hasValidSession (snd ?first) now2 ?tok"
    assume h: "isAuthEnabled cfg
        \<and> getProp (res_body (fst (authStatus cfg srv authorization now1 now2))) ''role''
            \<noteq> JStr ''student''"
    then have r: "getProp (res_body (fst (authStatus cfg srv authorization now1 now2))) ''role''
        = JStr (if fst ?second then getSessionRole (snd ?second) ?tok else ''student'')"
      by (simp add: authStatus_def Let_def res_json_def)
    with h have v2: "fst ?second" by (auto split: if_splits)
    from hasValidSession_true [OF v2] obtain t s where
      s2: "snd ?second = snd ?first" and tok: "?tok = Some t" and ne: "t \<noteq> []"
      and s: "authSessions (snd ?first) t = Some s" and n2: "of_int now2 < expiresAt s"
      by auto
    have v1: "fst ?first"
    proof (rule ccontr)
      assume "\<not> fst ?first"
      then have "authSessions srv t = None \<or> authSessions (snd ?first) t = None"
        using tok ne by (auto simp: hasValidSession_def split: option.splits if_splits)
      moreover from \<open>\<not> fst ?first\<close>
      have "authSessions (snd ?first) t = None \<or> authSessions (snd ?first) t = authSessions srv t"
        using tok ne by (auto simp: hasValidSession_def split: option.splits if_splits)
      ultimately show False using s by auto
    qed
    from hasValidSession_true [OF v1] tok s obtain
      s1: "snd ?first = srv" and n1: "of_int now1 < expiresAt s"
      and s0: "authSessions srv t = Some s"
      by auto
    from r v2 s2 s1 tok ne s0 h have
      "getProp (res_body (fst (authStatus cfg srv authorization now1 now2))) ''role'' = JStr (role s)"
      by (auto simp: getSessionRole_def split: if_splits)
    with tok s0 n1 n2
    show "\<exists>t s. getBearerToken authorization = Some t \<and> authSessions srv t = Some s
                 \<and> of_int now1 < expiresAt s \<and> of_int now2 < expiresAt s
                 \<and> getProp (res_body (fst (authStatus cfg srv authorization now1 now2))) ''role''
                     = JStr (role s)"
      by blast
  qed
  from a b c d show ?thesis by blast
qed

theorem getSessionRole_cases_witness:
  "getSessionRole stale_server (Some ''zz'') = ''student''
   \<and> getSessionRole stale_server (Some ''ab12'') = ''professor''
   \<and> getSessionRole (snd (hasValidSession stale_server 9000 (Some ''ab12''))) (Some ''ab12'')
       = ''student''
   \<and> getProp (res_body (fst (authStatus example_config stale_server (Some ''Bearer ab12'')
                                 4000 4001))) ''role'' = JStr ''professor''"
proof -
  have s: "authSessions stale_server ''ab12'' = Some \<lparr> expiresAt = 5000, role = ''professor'' \<rparr>"
    and z: "authSessions stale_server ''zz'' = None"
    by (simp_all add: stale_server_def)
  have e: "\<not> fst (hasValidSession stale_server 9000 (Some ''ab12''))"
    by (simp add: hasValidSession_def s)
  have en: "isAuthEnabled example_config"
    by (simp add: isAuthEnabled_def example_config_def default_config_def js_trim_def
        js_whitespace_def)
  have tok: "getBearerToken (Some ''Bearer ab12'') = Some ''ab12''"
    by (simp add: getBearerToken_def js_trim_def js_whitespace_def)
  have r: "getProp (res_body (fst (authStatus example_config stale_server (Some ''Bearer ab12'')
                                 4000 4001))) ''role'' \<noteq> JStr ''student''"
    by (simp add: authStatus_def en tok Let_def hasValidSession_def s getSessionRole_def
        res_json_def)
  note w = getSessionRole_cases [where srv = stale_server]
  from w [where token = "Some ''zz''"] z
  have 1: "getSessionRole stale_server (Some ''zz'') = ''student''" by simp
  from w [where token = "Some ''ab12''" and t = "''ab12''"
            and s = "\<lparr> expiresAt = 5000, role = ''professor'' \<rparr>"] s
  have 2: "getSessionRole stale_server (Some ''ab12'') = ''professor''" by simp
  from w [where token = "Some ''ab12''" and now = 9000] e
  have 3: "getSessionRole (snd (hasValidSession stale_server 9000 (Some ''ab12''))) (Some ''ab12'')
       = ''student''" by simp
  from w [where cfg = example_config and authorization = "Some ''Bearer ab12''"
            and ?now1.0 = 4000 and ?now2.0 = 4001] en r tok s
  have 4: "getProp (res_body (fst (authStatus example_config stale_server (Some ''Bearer ab12'')
                                 4000 4001))) ''role'' = JStr ''professor''" by auto
  from 1 2 3 4 show ?thesis by blast
qed

section \<open>Login: properties\<close>

lemma toHex_nonempty: "bs \<noteq> [] \<Longrightarrow> toHex bs \<noteq> []"
  by (cases bs) simp_all

lemma submitted_Some:
  "submitted body = Some p \<Longrightarrow>
   readRequiredTextField body ''password'' m =
     (if p = [] then
        Inl (ApiError 400 ''INVALID_INPUT''
               (''Field '' @ quoted ''password'' @ '' cannot be empty.'') JUndefined JUndefined)
      else if m < of_nat (length p) then
        Inl (ApiError 400 ''INPUT_TOO_LARGE''
               (''Field '' @ quoted ''password'' @ '' exceeds maximum length.'')
               (JObj [(''field'', JStr ''password''), (''maxLength'', JNum m)]) JUndefined)
      else Inr p)"
  by (auto simp: submitted_def readRequiredTextField_def Let_def
           split: jsval.splits option.splits)

lemma submitted_None:
  "submitted body = None \<Longrightarrow>
   \<exists>e. readRequiredTextField body ''password'' m = Inl e \<and> status e = 400
        \<and> code e = ''INVALID_INPUT''"
  by (auto simp: submitted_def readRequiredTextField_def Let_def ApiError_def
           split: jsval.splits option.splits)

lemma sendError_ApiErr:
  "res_status (sendError hs (ApiErr e)) = status e
   \<and> error_field (sendError hs (ApiErr e)) ''code'' = JStr (code e)
   \<and> getProp (res_body (sendError hs (ApiErr e))) ''token'' = JUndefined"
  by (simp add: sendError_def error_field_def)

lemma created_session:
  assumes "randomBytes \<noteq> []" "of_int t < of_int now + SESSION_TTL_MS cfg"
  shows "fst (hasValidSession (snd (createSessionToken cfg randomBytes now r srv)) t
               (Some (toHex randomBytes)))
       \<and> getSessionRole (snd (createSessionToken cfg randomBytes now r srv))
               (Some (toHex randomBytes))
           = (case r of None \<Rightarrow> ''student''
              | Some x \<Rightarrow> if x = [] then ''student'' else x)"
  using assms toHex_nonempty [of randomBytes]
  by (simp add: createSessionToken_def hasValidSession_def getSessionRole_def Let_def
           split: option.splits)

lemma expired_session:
  assumes "randomBytes \<noteq> []" "of_int now + SESSION_TTL_MS cfg \<le> of_int t"
  shows "\<not> fst (hasValidSession (snd (createSessionToken cfg randomBytes now r srv)) t
               (Some (toHex randomBytes)))"
  using assms toHex_nonempty [of randomBytes]
  by (simp add: createSessionToken_def hasValidSession_def Let_def)

lemma login_correct:
  assumes "isAuthEnabled cfg" "of_nat (length (APP_PASSWORD cfg)) \<le> MAX_PASSWORD_LENGTH cfg"
    "submitted body = Some (APP_PASSWORD cfg)"
  shows "login cfg srv body randomBytes now =
           (res_json (JObj [(''token'', JStr (toHex randomBytes)), (''role'', JStr ''student''),
                            (''expiresInMs'', JNum (SESSION_TTL_MS cfg))]),
            snd (createSessionToken cfg randomBytes now None srv))"
  using assms submitted_Some [OF assms(3), of "MAX_PASSWORD_LENGTH cfg"]
  by (simp add: login_def isAuthEnabled_def Let_def createSessionToken_def)

lemma profLogin_correct:
  assumes "isAuthEnabled cfg" "PROF_PASSWORD cfg \<noteq> []"
    "of_nat (length (PROF_PASSWORD cfg)) \<le> MAX_PASSWORD_LENGTH cfg"
    "submitted body = Some (PROF_PASSWORD cfg)"
  shows "profLogin cfg srv body randomBytes now =
           (res_json (JObj [(''token'', JStr (toHex randomBytes)), (''role'', JStr ''professor''),
                            (''expiresInMs'', JNum (SESSION_TTL_MS cfg))]),
            snd (createSessionToken cfg randomBytes now (Some ''professor'') srv))"
  using assms submitted_Some [OF assms(4), of "MAX_PASSWORD_LENGTH cfg"]
  by (simp add: profLogin_def isAuthEnabled_def Let_def createSessionToken_def)

text \<open>The ways a login is refused, in the order of the handler's checks.\<close>

lemma login_refusals:
  "(\<not> isAuthEnabled cfg \<longrightarrow>
      refused 500 ''AUTH_NOT_CONFIGURED'' srv (login cfg srv body randomBytes now))
   \<and> (isAuthEnabled cfg \<and> (submitted body = None \<or> submitted body = Some []) \<longrightarrow>
      refused 400 ''INVALID_INPUT'' srv (login cfg srv body randomBytes now))
   \<and> (isAuthEnabled cfg \<and> submitted body = Some p \<and> p \<noteq> []
        \<and> MAX_PASSWORD_LENGTH cfg < of_nat (length p) \<longrightarrow>
      refused 400 ''INPUT_TOO_LARGE'' srv (login cfg srv body randomBytes now))
   \<and> (isAuthEnabled cfg \<and> submitted body = Some p \<and> p \<noteq> []
        \<and> of_nat (length p) \<le> MAX_PASSWORD_LENGTH cfg \<and> p \<noteq> APP_PASSWORD cfg \<longrightarrow>
      refused 401 ''INVALID_CREDENTIALS'' srv (login cfg srv body randomBytes now))"
proof -
  have a: "\<not> isAuthEnabled cfg \<longrightarrow>
      refused 500 ''AUTH_NOT_CONFIGURED'' srv (login cfg srv body randomBytes now)"
    by (simp add: login_def refused_def sendError_ApiErr ApiError_def)
  have b: "isAuthEnabled cfg \<and> (submitted body = None \<or> submitted body = Some []) \<longrightarrow>
      refused 400 ''INVALID_INPUT'' srv (login cfg srv body randomBytes now)"
    using submitted_None [of body "MAX_PASSWORD_LENGTH cfg"]
      submitted_Some [of body "[]" "MAX_PASSWORD_LENGTH cfg"]
    by (auto simp: login_def refused_def sendError_ApiErr ApiError_def)
  have c: "isAuthEnabled cfg \<and> submitted body = Some p \<and> p \<noteq> []
        \<and> MAX_PASSWORD_LENGTH cfg < of_nat (length p) \<longrightarrow>
      refused 400 ''INPUT_TOO_LARGE'' srv (login cfg srv body randomBytes now)"
    using submitted_Some [of body p "MAX_PASSWORD_LENGTH cfg"]
    by (auto simp: login_def refused_def sendError_ApiErr ApiError_def)
  have d: "isAuthEnabled cfg \<and> submitted body = Some p \<and> p \<noteq> []
        \<and> of_nat (length p) \<le> MAX_PASSWORD_LENGTH cfg \<and> p \<noteq> APP_PASSWORD cfg \<longrightarrow>
      refused 401 ''INVALID_CREDENTIALS'' srv (login cfg srv body randomBytes now)"
    using submitted_Some [of body p "MAX_PASSWORD_LENGTH cfg"]
    by (auto simp: login_def refused_def sendError_ApiErr ApiError_def)
  from a b c d show ?thesis by blast
qed

lemma profLogin_refusals:
  "(\<not> isAuthEnabled cfg \<longrightarrow>
      refused 500 ''AUTH_NOT_CONFIGURED'' srv (profLogin cfg srv body randomBytes now))
   \<and> (isAuthEnabled cfg \<and> PROF_PASSWORD cfg = [] \<longrightarrow>
      refused 500 ''PROF_AUTH_NOT_CONFIGURED'' srv (profLogin cfg srv body randomBytes now))
   \<and> (isAuthEnabled cfg \<and> PROF_PASSWORD cfg \<noteq> []
        \<and> (submitted body = None \<or> submitted body = Some []) \<longrightarrow>
      refused 400 ''INVALID_INPUT'' srv (profLogin cfg srv body randomBytes now))
   \<and> (isAuthEnabled cfg \<and> PROF_PASSWORD cfg \<noteq> [] \<and> submitted body = Some p \<and> p \<noteq> []
        \<and> MAX_PASSWORD_LENGTH cfg < of_nat (length p) \<longrightarrow>
      refused 400 ''INPUT_TOO_LARGE'' srv (profLogin cfg srv body randomBytes now))
   \<and> (isAuthEnabled cfg \<and> PROF_PASSWORD cfg \<noteq> [] \<and> submitted body = Some p \<and> p \<noteq> []
        \<and> of_nat (length p) \<le> MAX_PASSWORD_LENGTH cfg \<and> p \<noteq> PROF_PASSWORD cfg \<longrightarrow>
      refused 401 ''INVALID_CREDENTIALS'' srv (profLogin cfg srv body randomBytes now))"
proof -
  have a: "\<not> isAuthEnabled cfg \<longrightarrow>
      refused 500 ''AUTH_NOT_CONFIGURED'' srv (profLogin cfg srv body randomBytes now)"
    by (simp add: profLogin_def refused_def sendError_ApiErr ApiError_def)
  have a': "isAuthEnabled cfg \<and> PROF_PASSWORD cfg = [] \<longrightarrow>
      refused 500 ''PROF_AUTH_NOT_CONFIGURED'' srv (profLogin cfg srv body randomBytes now)"
    by (simp add: profLogin_def refused_def sendError_ApiErr ApiError_def)
  have b: "isAuthEnabled cfg \<and> PROF_PASSWORD cfg \<noteq> []
        \<and> (submitted body = None \<or> submitted body = Some []) \<longrightarrow>
      refused 400 ''INVALID_INPUT'' srv (profLogin cfg srv body randomBytes now)"
    using submitted_None [of body "MAX_PASSWORD_LENGTH cfg"]
      submitted_Some [of body "[]" "MAX_PASSWORD_LENGTH cfg"]
    by (auto simp: profLogin_def refused_def sendError_ApiErr ApiError_def)
  have c: "isAuthEnabled cfg \<and> PROF_PASSWORD cfg \<noteq> [] \<and> submitted body = Some p \<and> p \<noteq> []
        \<and> MAX_PASSWORD_LENGTH cfg < of_nat (length p) \<longrightarrow>
      refused 400 ''INPUT_TOO_LARGE'' srv (profLogin cfg srv body randomBytes now)"
    using submitted_Some [of body p "MAX_PASSWORD_LENGTH cfg"]
    by (auto simp: profLogin_def refused_def sendError_ApiErr ApiError_def)
  have d: "isAuthEnabled cfg \<and> PROF_PASSWORD cfg \<noteq> [] \<and> submitted body = Some p \<and> p \<noteq> []
        \<and> of_nat (length p) \<le> MAX_PASSWORD_LENGTH cfg \<and> p \<noteq> PROF_PASSWORD cfg \<longrightarrow>
      refused 401 ''INVALID_CREDENTIALS'' srv (profLogin cfg srv body randomBytes now)"
    using submitted_Some [of body p "MAX_PASSWORD_LENGTH cfg"]
    by (auto simp: profLogin_def refused_def sendError_ApiErr ApiError_def)
  from a a' b c d show ?thesis by blast
qed

text \<open>
  C3 (amended). A login whose \<^verbatim>\<open>password\<close> field trims to the base password answers
  200 with the token (the 32 random bytes in hexadecimal) and role \<^verbatim>\<open>"student"\<close>,
  provided authentication is enabled and that password is at most
  \<^verbatim>\<open>MAX_PASSWORD_LENGTH\<close> long; at every time before \<open>now + SESSION_TTL_MS\<close> that token is
  valid and its role is \<^verbatim>\<open>"student"\<close>. The same holds for the professor login with the
  elevated password (which must be configured) and role \<^verbatim>\<open>"professor"\<close>. Every other
  login is refused: it yields no token and leaves the store unchanged. The refusal is
  500 \<^verbatim>\<open>AUTH_NOT_CONFIGURED\<close> without a base password and 500
  \<^verbatim>\<open>PROF_AUTH_NOT_CONFIGURED\<close> without an elevated one; otherwise 400
  \<^verbatim>\<open>INVALID_INPUT\<close> when the password field is missing, not a string or blank; otherwise
  400 \<^verbatim>\<open>INPUT_TOO_LARGE\<close> when the trimmed password is longer than
  \<^verbatim>\<open>MAX_PASSWORD_LENGTH\<close>; otherwise 401 \<^verbatim>\<open>INVALID_CREDENTIALS\<close> when it is not the
  configured password.
\<close>

theorem login_round_trip:
  "(isAuthEnabled cfg \<and> of_nat (length (APP_PASSWORD cfg)) \<le> MAX_PASSWORD_LENGTH cfg
      \<and> submitted body = Some (APP_PASSWORD cfg) \<and> length randomBytes = 32
      \<and> of_int t < of_int now + SESSION_TTL_MS cfg \<longrightarrow>
      res_status (fst (login cfg srv body randomBytes now)) = 200
      \<and> getProp (res_body (fst (login cfg srv body randomBytes now))) ''token''
          = JStr (toHex randomBytes)
      \<and> getProp (res_body (fst (login cfg srv body randomBytes now))) ''role'' = JStr ''student''
      \<and> fst (hasValidSession (snd (login cfg srv body randomBytes now)) t
               (Some (toHex randomBytes)))
      \<and> getSessionRole (snd (login cfg srv body randomBytes now)) (Some (toHex randomBytes))
          = ''student'')
   \<and> (isAuthEnabled cfg \<and> PROF_PASSWORD cfg \<noteq> []
      \<and> of_nat (length (PROF_PASSWORD cfg)) \<le> MAX_PASSWORD_LENGTH cfg
      \<and> submitted body = Some (PROF_PASSWORD cfg) \<and> length randomBytes = 32
      \<and> of_int t < of_int now + SESSION_TTL_MS cfg \<longrightarrow>
      res_status (fst (profLogin cfg srv body randomBytes now)) = 200
      \<and> getProp (res_body (fst (profLogin cfg srv body randomBytes now))) ''token''
          = JStr (toHex randomBytes)
      \<and> getProp (res_body (fst (profLogin cfg srv body randomBytes now))) ''role''
          = JStr ''professor''
      \<and> fst (hasValidSession (snd (profLogin cfg srv body randomBytes now)) t
               (Some (toHex randomBytes)))
      \<and> getSessionRole (snd (profLogin cfg srv body randomBytes now)) (Some (toHex randomBytes))
          = ''professor'')
   \<and> (\<not> isAuthEnabled cfg \<longrightarrow>
      refused 500 ''AUTH_NOT_CONFIGURED'' srv (login cfg srv body randomBytes now)
      \<and> refused 500 ''AUTH_NOT_CONFIGURED'' srv (profLogin cfg srv body randomBytes now))
   \<and> (isAuthEnabled cfg \<and> PROF_PASSWORD cfg = [] \<longrightarrow>
      refused 500 ''PROF_AUTH_NOT_CONFIGURED'' srv (profLogin cfg srv body randomBytes now))
   \<and> (isAuthEnabled cfg \<and> (submitted body = None \<or> submitted body = Some []) \<longrightarrow>
      refused 400 ''INVALID_INPUT'' srv (login cfg srv body randomBytes now)
      \<and> (PROF_PASSWORD cfg \<noteq> [] \<longrightarrow>
           refused 400 ''INVALID_INPUT'' srv (profLogin cfg srv body randomBytes now)))
   \<and> (isAuthEnabled cfg \<and> submitted body = Some p \<and> p \<noteq> []
        \<and> MAX_PASSWORD_LENGTH cfg < of_nat (length p) \<longrightarrow>
      refused 400 ''INPUT_TOO_LARGE'' srv (login cfg srv body randomBytes now)
      \<and> (PROF_PASSWORD cfg \<noteq> [] \<longrightarrow>
           refused 400 ''INPUT_TOO_LARGE'' srv (profLogin cfg srv body randomBytes now)))
   \<and> (isAuthEnabled cfg \<and> submitted body = Some p \<and> p \<noteq> []
        \<and> of_nat (length p) \<le> MAX_PASSWORD_LENGTH cfg \<and> p \<noteq> APP_PASSWORD cfg \<longrightarrow>
      refused 401 ''INVALID_CREDENTIALS'' srv (login cfg srv body randomBytes now))
   \<and> (isAuthEnabled cfg \<and> PROF_PASSWORD cfg \<noteq> [] \<and> submitted body = Some p \<and> p \<noteq> []
        \<and> of_nat (length p) \<le> MAX_PASSWORD_LENGTH cfg \<and> p \<noteq> PROF_PASSWORD cfg \<longrightarrow>
      refused 401 ''INVALID_CREDENTIALS'' srv (profLogin cfg srv body randomBytes now))"
proof -
  have ne: "length randomBytes = 32 \<Longrightarrow> randomBytes \<noteq> []" by auto
  have a: "isAuthEnabled cfg \<and> of_nat (length (APP_PASSWORD cfg)) \<le> MAX_PASSWORD_LENGTH cfg
      \<and> submitted body = Some (APP_PASSWORD cfg) \<and> length randomBytes = 32
      \<and> of_int t < of_int now + SESSION_TTL_MS cfg \<longrightarrow>
      res_status (fst (login cfg srv body randomBytes now)) = 200
      \<and> getProp (res_body (fst (login cfg srv body randomBytes now))) ''token''
          = JStr (toHex randomBytes)
      \<and> getProp (res_body (fst (login cfg srv body randomBytes now))) ''role'' = JStr ''student''
      \<and> fst (hasValidSession (snd (login cfg srv body randomBytes now)) t
               (Some (toHex randomBytes)))
      \<and> getSessionRole (snd (login cfg srv body randomBytes now)) (Some (toHex randomBytes))
          = ''student''"
    using created_session [of randomBytes t now cfg None srv] ne
    by (simp add: login_correct res_json_def)
  have b: "isAuthEnabled cfg \<and> PROF_PASSWORD cfg \<noteq> []
      \<and> of_nat (length (PROF_PASSWORD cfg)) \<le> MAX_PASSWORD_LENGTH cfg
      \<and> submitted body = Some (PROF_PASSWORD cfg) \<and> length randomBytes = 32
      \<and> of_int t < of_int now + SESSION_TTL_MS cfg \<longrightarrow>
      res_status (fst (profLogin cfg srv body randomBytes now)) = 200
      \<and> getProp (res_body (fst (profLogin cfg srv body randomBytes now))) ''token''
          = JStr (toHex randomBytes)
      \<and> getProp (res_body (fst (profLogin cfg srv body randomBytes now))) ''role''
          = JStr ''professor''
      \<and> fst (hasValidSession (snd (profLogin cfg srv body randomBytes now)) t
               (Some (toHex randomBytes)))
      \<and> getSessionRole (snd (profLogin cfg srv body randomBytes now)) (Some (toHex randomBytes))
          = ''professor''"
    using created_session [of randomBytes t now cfg "Some ''professor''" srv] ne
    by (simp add: profLogin_correct res_json_def)
  from a b login_refusals [of cfg srv body randomBytes now p]
    profLogin_refusals [of cfg srv body randomBytes now p]
  show ?thesis by blast
qed

text \<open>
  C3 as stated fails. With the default limit of 256, a wrong password of 257 characters
  is refused by the validator, with status 400 and code \<^verbatim>\<open>INPUT_TOO_LARGE\<close>, before
  it is compared: not with status 401 and \<^verbatim>\<open>INVALID_CREDENTIALS\<close>. The correct
  password does not always yield a token either: with a limit of four characters the
  base password \<^verbatim>\<open>secret\<close> is refused with status 400; without a base password the
  correct elevated password is refused with status 500; and the token of a correct login
  at time 1000 is no longer valid at time 1000 + \<^verbatim>\<open>SESSION_TTL_MS\<close>.
\<close>

theorem login_wrong_password_counterexample:
  "submitted long_password_body = Some (replicate 257 CHR ''x'')
   \<and> replicate 257 CHR ''x'' \<noteq> APP_PASSWORD example_config
   \<and> res_status (fst (login example_config empty_server long_password_body (replicate 32 0) 1000))
       = 400
   \<and> error_field (fst (login example_config empty_server long_password_body (replicate 32 0) 1000))
       ''code'' = JStr ''INPUT_TOO_LARGE''
   \<and> submitted (password_body ''secret'') = Some (APP_PASSWORD short_limit_config)
   \<and> res_status (fst (login short_limit_config empty_server (password_body ''secret'')
                         (replicate 32 0) 1000)) = 400
   \<and> submitted (password_body ''prof-secret'') = Some (PROF_PASSWORD open_config)
   \<and> res_status (fst (profLogin open_config empty_server (password_body ''prof-secret'')
                         (replicate 32 0) 1000)) = 500
   \<and> res_status (fst (login example_config empty_server (password_body ''secret'')
                         (replicate 32 0) 1000)) = 200
   \<and> fst (hasValidSession
            (snd (login example_config empty_server (password_body ''secret'') (replicate 32 0) 1000))
            43201000 (Some (toHex (replicate 32 0)))) = False"
proof -
  have x: "\<not> js_whitespace CHR ''x''" by (simp add: js_whitespace_def)
  then have s: "submitted long_password_body = Some (replicate 257 CHR ''x'')"
    by (simp add: submitted_def long_password_body_def js_trim_def)
  have p: "APP_PASSWORD example_config = ''secret''"
    and pp: "PROF_PASSWORD example_config = ''prof-secret''"
    and m: "MAX_PASSWORD_LENGTH example_config = 256"
    and ttl: "SESSION_TTL_MS example_config = 43200000"
    and en: "isAuthEnabled example_config"
    by (simp_all add: example_config_def default_config_def js_trim_def js_whitespace_def
        isAuthEnabled_def)
  have "length (replicate 257 CHR ''x'') \<noteq> length (APP_PASSWORD example_config)"
    by (simp add: p)
  then have d: "replicate 257 CHR ''x'' \<noteq> APP_PASSWORD example_config" by metis
  from submitted_Some [OF s, of 256] have
    "readRequiredTextField long_password_body ''password'' 256 =
       Inl (ApiError 400 ''INPUT_TOO_LARGE''
               (''Field '' @ quoted ''password'' @ '' exceeds maximum length.'')
               (JObj [(''field'', JStr ''password''), (''maxLength'', JNum 256)]) JUndefined)"
    by simp
  then have 1: "res_status (fst (login example_config empty_server long_password_body (replicate 32 0) 1000))
       = 400
   \<and> error_field (fst (login example_config empty_server long_password_body (replicate 32 0) 1000))
       ''code'' = JStr ''INPUT_TOO_LARGE''"
    by (simp add: login_def isAuthEnabled_def p m sendError_ApiErr ApiError_def)
  have s1: "submitted (password_body ''secret'') = Some ''secret''"
    and s2: "submitted (password_body ''prof-secret'') = Some ''prof-secret''"
    by (simp_all add: submitted_def password_body_def js_trim_def js_whitespace_def)
  have short: "APP_PASSWORD short_limit_config = ''secret''"
    "MAX_PASSWORD_LENGTH short_limit_config = 4" "isAuthEnabled short_limit_config"
    by (simp_all add: short_limit_config_def p isAuthEnabled_def)
  from login_refusals [of short_limit_config empty_server "password_body ''secret''"
      "replicate 32 0" 1000 "''secret''"] short s1
  have 2: "res_status (fst (login short_limit_config empty_server (password_body ''secret'')
                         (replicate 32 0) 1000)) = 400"
    by (simp add: refused_def)
  have op: "PROF_PASSWORD open_config = ''prof-secret''" "\<not> isAuthEnabled open_config"
    by (simp_all add: open_config_def pp isAuthEnabled_def)
  from profLogin_refusals [of open_config empty_server "password_body ''prof-secret''"
      "replicate 32 0" 1000] op
  have 3: "res_status (fst (profLogin open_config empty_server (password_body ''prof-secret'')
                         (replicate 32 0) 1000)) = 500"
    by (simp add: refused_def)
  have ok: "login example_config empty_server (password_body ''secret'') (replicate 32 0) 1000 =
           (res_json (JObj [(''token'', JStr (toHex (replicate 32 0))), (''role'', JStr ''student''),
                            (''expiresInMs'', JNum (SESSION_TTL_MS example_config))]),
            snd (createSessionToken example_config (replicate 32 0) 1000 None empty_server))"
    by (rule login_correct) (simp_all add: en p m s1)
  then have 4: "res_status (fst (login example_config empty_server (password_body ''secret'')
                         (replicate 32 0) 1000)) = 200"
    by (simp add: res_json_def)
  have "\<not> fst (hasValidSession
            (snd (createSessionToken example_config (replicate 32 0) 1000 None empty_server))
            43201000 (Some (toHex (replicate 32 0))))"
    by (rule expired_session) (simp_all add: ttl)
  with ok have 5: "fst (hasValidSession
            (snd (login example_config empty_server (password_body ''secret'') (replicate 32 0) 1000))
            43201000 (Some (toHex (replicate 32 0)))) = False"
    by simp
  from s d 1 s1 short(1) 2 s2 op(1) 3 4 5 show ?thesis by simp
qed

theorem login_round_trip_witness:
  "fst (hasValidSession
          (snd (login example_config empty_server (password_body '' secret '') (replicate 32 171) 1000))
          43200999 (Some (toHex (replicate 32 171))))
   \<and> getSessionRole
          (snd (login example_config empty_server (password_body '' secret '') (replicate 32 171) 1000))
          (Some (toHex (replicate 32 171))) = ''student''
   \<and> getSessionRole
          (snd (profLogin example_config empty_server (password_body ''prof-secret'')
                  (replicate 32 171) 1000))
          (Some (toHex (replicate 32 171))) = ''professor''
   \<and> refused 401 ''INVALID_CREDENTIALS'' empty_server
        (login example_config empty_server (password_body ''guess'') (replicate 32 171) 1000)
   \<and> refused 401 ''INVALID_CREDENTIALS'' empty_server
        (profLogin example_config empty_server (password_body ''secret'') (replicate 32 171) 1000)
   \<and> refused 400 ''INVALID_INPUT'' empty_server
        (login example_config empty_server (password_body ''   '') (replicate 32 171) 1000)
   \<and> refused 400 ''INPUT_TOO_LARGE'' empty_server
        (login example_config empty_server long_password_body (replicate 32 171) 1000)
   \<and> refused 500 ''AUTH_NOT_CONFIGURED'' empty_server
        (login open_config empty_server (password_body ''secret'') (replicate 32 171) 1000)"
proof -
  have en: "isAuthEnabled example_config" and ap: "APP_PASSWORD example_config = ''secret''"
    and pp: "PROF_PASSWORD example_config = ''prof-secret''"
    and m: "MAX_PASSWORD_LENGTH example_config = 256"
    and ttl: "SESSION_TTL_MS example_config = 43200000"
    by (simp_all add: isAuthEnabled_def example_config_def default_config_def js_trim_def
        js_whitespace_def)
  have off: "\<not> isAuthEnabled open_config"
    by (simp add: open_config_def isAuthEnabled_def)
  have s1: "submitted (password_body '' secret '') = Some ''secret''"
    and s2: "submitted (password_body ''prof-secret'') = Some ''prof-secret''"
    and s3: "submitted (password_body ''guess'') = Some ''guess''"
    and s4: "submitted (password_body ''secret'') = Some ''secret''"
    and s5: "submitted (password_body ''   '') = Some []"
    by (simp_all add: submitted_def password_body_def js_trim_def js_whitespace_def)
  have "\<not> js_whitespace CHR ''x''" by (simp add: js_whitespace_def)
  then have s6: "submitted long_password_body = Some (replicate 257 CHR ''x'')"
    by (simp add: submitted_def long_password_body_def js_trim_def)
  note w = login_round_trip [where cfg = example_config and srv = empty_server
      and randomBytes = "replicate 32 171" and now = 1000 and t = 43200999]
  from w [where body = "password_body '' secret ''"] en ap m ttl s1
  have 1: "fst (hasValidSession
          (snd (login example_config empty_server (password_body '' secret '') (replicate 32 171) 1000))
          43200999 (Some (toHex (replicate 32 171))))
     \<and> getSessionRole
          (snd (login example_config empty_server (password_body '' secret '') (replicate 32 171) 1000))
          (Some (toHex (replicate 32 171))) = ''student''"
    by simp
  from w [where body = "password_body ''prof-secret''"] en pp m ttl s2
  have 2: "getSessionRole
          (snd (profLogin example_config empty_server (password_body ''prof-secret'')
                  (replicate 32 171) 1000))
          (Some (toHex (replicate 32 171))) = ''professor''"
    by simp
  from w [where body = "password_body ''guess''" and p = "''guess''"] en ap m s3
  have 3: "refused 401 ''INVALID_CREDENTIALS'' empty_server
        (login example_config empty_server (password_body ''guess'') (replicate 32 171) 1000)"
    by simp
  from w [where body = "password_body ''secret''" and p = "''secret''"] en pp m s4
  have 4: "refused 401 ''INVALID_CREDENTIALS'' empty_server
        (profLogin example_config empty_server (password_body ''secret'') (replicate 32 171) 1000)"
    by simp
  from w [where body = "password_body ''   ''"] en s5
  have 5: "refused 400 ''INVALID_INPUT'' empty_server
        (login example_config empty_server (password_body ''   '') (replicate 32 171) 1000)"
    by simp
  from w [where body = long_password_body and p = "replicate 257 CHR ''x''"] en m s6
  have 6: "refused 400 ''INPUT_TOO_LARGE'' empty_server
        (login example_config empty_server long_password_body (replicate 32 171) 1000)"
    by simp
  from login_round_trip [where cfg = open_config and srv = empty_server
      and randomBytes = "replicate 32 171" and now = 1000
      and body = "password_body ''secret''"] off
  have 7: "refused 500 ''AUTH_NOT_CONFIGURED'' empty_server
        (login open_config empty_server (password_body ''secret'') (replicate 32 171) 1000)"
    by simp
  from 1 2 3 4 5 6 7 show ?thesis by blast
qed

section \<open>Flashcards: properties\<close>

text \<open>
  After a successful upstream call, a content that does not parse gives status 502 with
  code \<^verbatim>\<open>UPSTREAM_INVALID_RESPONSE\<close>; a content that parses to anything but
  \<^verbatim>\<open>null\<close> gives the \<^verbatim>\<open>flashcards\<close> array when there is one and the empty list
  otherwise.
\<close>

lemma flashcards_payload_cases:
  assumes "readRequiredTextField body ''content'' (MAX_CONTENT_LENGTH cfg) = Inr c"
    and "openaiJson cfg fetched = Inr resp"
  shows "(JSON_parse (contentText resp) = None \<longrightarrow>
            res_status (flashcards cfg JSON_parse body fetched) = 502
            \<and> error_field (flashcards cfg JSON_parse body fetched) ''code''
                = JStr ''UPSTREAM_INVALID_RESPONSE'')
       \<and> (JSON_parse (contentText resp) = Some parsed \<and> \<not> nullish parsed
            \<and> \<not> isArray (getProp parsed ''flashcards'') \<longrightarrow>
            flashcards cfg JSON_parse body fetched = res_json (JObj [(''flashcards'', JArr [])]))
       \<and> (JSON_parse (contentText resp) = Some parsed \<and> isArray (getProp parsed ''flashcards'') \<longrightarrow>
            flashcards cfg JSON_parse body fetched
              = res_json (JObj [(''flashcards'', getProp parsed ''flashcards'')]))"
proof -
  have "isArray (getProp parsed ''flashcards'') \<Longrightarrow> \<not> nullish parsed"
    by (cases parsed) simp_all
  with assms show ?thesis
    by (auto simp: flashcards_def flashcards_try_def sendError_def error_field_def ApiError_def)
qed

text \<open>
  C8, where the code departs from it. After a successful upstream call whose content
  parses to \<^verbatim>\<open>null\<close> (a JSON value without a \<^verbatim>\<open>flashcards\<close> field), reading
  \<^verbatim>\<open>parsed.flashcards\<close> throws a TypeError, which the \<^verbatim>\<open>catch\<close> block hands to
  the normalizer: the answer is status 500 with code \<^verbatim>\<open>INTERNAL_ERROR\<close>, not the empty
  flashcard list.
\<close>

theorem flashcards_null_payload:
  assumes "readRequiredTextField body ''content'' (MAX_CONTENT_LENGTH cfg) = Inr c"
    and "openaiJson cfg fetched = Inr resp"
    and "JSON_parse (contentText resp) = Some JNull"
  shows "res_status (flashcards cfg JSON_parse body fetched) = 500
       \<and> error_field (flashcards cfg JSON_parse body fetched) ''code'' = JStr ''INTERNAL_ERROR''
       \<and> flashcards cfg JSON_parse body fetched \<noteq> res_json (JObj [(''flashcards'', JArr [])])"
  using assms
  by (simp add: flashcards_def flashcards_try_def sendError_def error_field_def res_json_def)

theorem flashcards_null_payload_witness:
  "contentText (JObj [(''choices'', JArr [JObj [(''message'', JObj [(''content'', JStr ''null'')])]])])
     = JStr ''null''
   \<and> res_status (flashcards example_config parse_null notes_body (Inr (chat_reply ''null''))) = 500
   \<and> error_field (flashcards example_config parse_null notes_body (Inr (chat_reply ''null'')))
        ''code'' = JStr ''INTERNAL_ERROR''"
proof -
  let ?resp = "JObj [(''choices'', JArr [JObj [(''message'', JObj [(''content'', JStr ''null'')])]])]"
  have t: "js_trim ''The cell is the unit of life.'' = ''The cell is the unit of life.''"
    by (simp add: js_trim_def js_whitespace_def)
  have a: "readRequiredTextField notes_body ''content'' (MAX_CONTENT_LENGTH example_config)
             = Inr ''The cell is the unit of life.''"
    by (simp add: readRequiredTextField_def notes_body_def example_config_def default_config_def
        Let_def t)
  have b: "openaiJson example_config (Inr (chat_reply ''null'')) = Inr ?resp"
    by (simp add: openaiJson_def example_config_def default_config_def chat_reply_def up_ok_def
        Let_def)
  have c: "contentText ?resp = JStr ''null''"
    by (simp add: contentText_def opt_prop_def opt_index0_def js_or_def)
  then have d: "parse_null (contentText ?resp) = Some JNull"
    by (simp add: parse_null_def)
  from flashcards_null_payload
         [where JSON_parse = parse_null and cfg = example_config and body = notes_body
            and fetched = "Inr (chat_reply ''null'')", OF a b d] c
  show ?thesis by simp
qed

end
